theory Spec2Isabelle
  imports Main
begin

section \<open>RouteNormalizer (src/lib/utils/decorator.utils.ts)\<close>

text \<open>
  Paths are JavaScript strings. The two regular expressions of \<^verbatim>\<open>normalizePath\<close> only
  tell the separator \<^verbatim>\<open>/\<close> from every other code unit, so a path is modelled as a
  \<^typ>\<open>string\<close> whose characters other than \<^term>\<open>CHR ''/''\<close> are opaque.

  An \<^verbatim>\<open>Error\<close> object built by this code is identified by its message; a
  \<^verbatim>\<open>TypeError\<close> raised by the engine (a property read on \<^verbatim>\<open>undefined\<close>, a call of
  something that is no function) carries no message of the program's.
\<close>

datatype error = Error string | TypeError

text \<open>
  \<^verbatim>\<open>s.replace(/\/+/g, '/')\<close>: every maximal run of separators is replaced by one
  separator; all other characters stay where they are.
\<close>

fun replace_slash_runs :: "string \<Rightarrow> string" where
  "replace_slash_runs [] = []"
| "replace_slash_runs [c] = [c]"
| "replace_slash_runs (c # d # cs) =
     (if c = CHR ''/'' \<and> d = CHR ''/'' then replace_slash_runs (d # cs)
      else c # replace_slash_runs (d # cs))"

text \<open>
  \<^verbatim>\<open>s.replace(/\/$/, '')\<close>: without the \<^verbatim>\<open>m\<close> flag \<^verbatim>\<open>$\<close> matches at the end of the
  input only, so exactly one separator is removed when the string ends with one.
\<close>

definition replace_trailing_slash :: "string \<Rightarrow> string" where
  "replace_trailing_slash s =
     (if s \<noteq> [] \<and> last s = CHR ''/'' then butlast s else s)"

text \<open>
  \<^verbatim>\<open>if (!path) throw new Error('Path cannot be empty.');\<close>
  \<^verbatim>\<open>return `/${path}`.replace(/\/+/g, '/').replace(/\/$/, '');\<close>
  For a string, \<^verbatim>\<open>!path\<close> holds exactly for the empty string.
\<close>

definition normalizePath :: "string \<Rightarrow> error + string" where
  "normalizePath path =
     (if path = [] then Inl (Error ''Path cannot be empty.'')
      else Inr (replace_trailing_slash (replace_slash_runs (CHR ''/'' # path))))"

text \<open>
  \<^verbatim>\<open>const normalizedPrefix = prefix ? this.normalizePath(prefix) : '';\<close>
  \<^verbatim>\<open>const normalizedPath = this.normalizePath(path);\<close>
  \<^verbatim>\<open>return `${normalizedPrefix}${normalizedPath}`.replace(/\/+/g, '/');\<close>
  The prefix is \<^verbatim>\<open>string | undefined\<close>: \<^term>\<open>None\<close> is \<^verbatim>\<open>undefined\<close>. Both
  \<^verbatim>\<open>undefined\<close> and the empty string are falsy, so neither reaches \<^verbatim>\<open>normalizePath\<close>.
\<close>

definition combinePaths :: "string option \<Rightarrow> string \<Rightarrow> error + string" where
  "combinePaths prefix path =
     (case (case prefix of
              None \<Rightarrow> Inr []
            | Some p \<Rightarrow> if p = [] then Inr [] else normalizePath p) of
        Inl e \<Rightarrow> Inl e
      | Inr normalizedPrefix \<Rightarrow>
          (case normalizePath path of
             Inl e \<Rightarrow> Inl e
           | Inr normalizedPath \<Rightarrow>
               Inr (replace_slash_runs (normalizedPrefix @ normalizedPath))))"

text \<open>
  The shape the spec asks of every stored path: non-empty, one leading separator, no
  repeated separator, no trailing separator.
\<close>

fun has_slash_run :: "string \<Rightarrow> bool" where
  "has_slash_run (c # d # cs) = ((c = CHR ''/'' \<and> d = CHR ''/'') \<or> has_slash_run (d # cs))"
| "has_slash_run _ = False"

definition is_normalized :: "string \<Rightarrow> bool" where
  "is_normalized s =
     (s \<noteq> [] \<and> hd s = CHR ''/'' \<and> \<not> has_slash_run s \<and> last s \<noteq> CHR ''/'')"

text \<open>
  \<^verbatim>\<open>validateMethod(target: any, propertyKey: string | symbol)\<close> reads
  \<^verbatim>\<open>target.constructor.prototype[propertyKey]\<close>. The target is modelled by what that
  read needs: its constructor, and the constructor's prototype as a property read. A read
  gives a value, gives \<^verbatim>\<open>undefined\<close> (\<^term>\<open>None\<close>), or throws (an accessor whose
  getter throws, or a read on a prototype that is itself \<^verbatim>\<open>undefined\<close>).
  \<^verbatim>\<open>String(propertyKey)\<close> is the key itself for a string and
  \<^verbatim>\<open>Symbol(description)\<close> for a symbol; a symbol is known by its description.
\<close>

datatype property_key = StringKey string | SymbolKey string

fun String :: "property_key \<Rightarrow> string" where
  "String (StringKey s) = s"
| "String (SymbolKey d) = ''Symbol('' @ d @ '')''"

record 'v js_constructor =
  prototype :: "property_key \<Rightarrow> error + 'v option"

record 'v js_target =
  constructor :: "'v js_constructor"

definition validateMethod :: "'v js_target \<Rightarrow> property_key \<Rightarrow> error + unit" where
  "validateMethod target propertyKey =
     (case prototype (constructor target) propertyKey of
        Inl e \<Rightarrow> Inl e
      | Inr v \<Rightarrow>
          (let isStatic = (v = None)
           in if isStatic
              then Inl (Error (''Decorators cannot be applied to static methods: '' @ String propertyKey))
              else Inr ()))"

subsection \<open>The targets a decorator receives\<close>

text \<open>
  A class declared without \<^verbatim>\<open>extends\<close>, with its instance methods and its static
  methods (string names, in declaration order; a later declaration of a name replaces an
  earlier one). Property values are told apart only as far as \<^verbatim>\<open>validateMethod\<close>
  needs: something built in, a declared method, or the class.
\<close>

record 'f js_class =
  instance_methods :: "(string \<times> 'f) list"
  static_methods :: "(string \<times> 'f) list"

datatype 'f js_property = Builtin | Method 'f | ClassItself

definition is_instance_member :: "'f js_class \<Rightarrow> property_key \<Rightarrow> bool" where
  "is_instance_member C k =
     (case k of StringKey n \<Rightarrow> n \<in> set (map fst (instance_methods C)) | SymbolKey d \<Rightarrow> False)"

definition is_static_member :: "'f js_class \<Rightarrow> property_key \<Rightarrow> bool" where
  "is_static_member C k =
     (case k of StringKey n \<Rightarrow> n \<in> set (map fst (static_methods C)) | SymbolKey d \<Rightarrow> False)"

text \<open>
  The properties ECMAScript gives \<^verbatim>\<open>Object.prototype\<close>, all with a value other than
  \<^verbatim>\<open>undefined\<close>; every other key reads as \<^verbatim>\<open>undefined\<close>.
\<close>

definition Object_prototype :: "property_key \<Rightarrow> error + 'f js_property option" where
  "Object_prototype k =
     (if k \<in> set (map StringKey
          [''constructor'', ''hasOwnProperty'', ''isPrototypeOf'', ''propertyIsEnumerable'',
           ''toLocaleString'', ''toString'', ''valueOf'', ''__proto__'',
           ''__defineGetter__'', ''__defineSetter__'', ''__lookupGetter__'', ''__lookupSetter__''])
      then Inr (Some Builtin) else Inr None)"

text \<open>
  \<^verbatim>\<open>Function.prototype\<close>: its own properties as ECMAScript gives them, then those it
  inherits from \<^verbatim>\<open>Object.prototype\<close>. \<^verbatim>\<open>arguments\<close> and \<^verbatim>\<open>caller\<close> are accessors
  whose getter throws a TypeError.
\<close>

definition Function_prototype :: "property_key \<Rightarrow> error + 'f js_property option" where
  "Function_prototype k =
     (if k \<in> set (map StringKey [''arguments'', ''caller'']) then Inl TypeError
      else if k \<in> set (map StringKey
          [''apply'', ''bind'', ''call'', ''toString'', ''constructor'', ''length'', ''name''])
        \<or> k = SymbolKey ''Symbol.hasInstance''
      then Inr (Some Builtin)
      else Object_prototype k)"

text \<open>
  The prototype object of a class: its own \<^verbatim>\<open>constructor\<close> (the class), the instance
  methods, then what it inherits from \<^verbatim>\<open>Object.prototype\<close>.
\<close>

definition class_prototype :: "'f js_class \<Rightarrow> property_key \<Rightarrow> error + 'f js_property option" where
  "class_prototype C k =
     (case k of
        StringKey n \<Rightarrow>
          if n = ''constructor'' then Inr (Some ClassItself)
          else (case map_of (rev (instance_methods C)) n of
                  Some f \<Rightarrow> Inr (Some (Method f))
                | None \<Rightarrow> Object_prototype k)
      | SymbolKey d \<Rightarrow> Object_prototype k)"

text \<open>
  A decorator on an instance method receives the class prototype as its target; the
  \<^verbatim>\<open>constructor\<close> of that target is the class, whose \<^verbatim>\<open>prototype\<close> is the class
  prototype again.
\<close>

definition instance_target :: "'f js_class \<Rightarrow> 'f js_property js_target" where
  "instance_target C = \<lparr>constructor = \<lparr>prototype = class_prototype C\<rparr>\<rparr>"

text \<open>
  A decorator on a static method receives the class as its target. The \<^verbatim>\<open>constructor\<close>
  of the class is a static method of that name if one is declared (a method has no
  \<^verbatim>\<open>prototype\<close>, so the read on it throws a TypeError), and otherwise the inherited
  \<^verbatim>\<open>Function.prototype.constructor\<close>, that is \<^verbatim>\<open>Function\<close>, whose \<^verbatim>\<open>prototype\<close> is
  \<^verbatim>\<open>Function.prototype\<close>.
\<close>

definition static_target :: "'f js_class \<Rightarrow> 'f js_property js_target" where
  "static_target C =
     \<lparr>constructor =
        (case map_of (rev (static_methods C)) ''constructor'' of
           Some f \<Rightarrow> \<lparr>prototype = (\<lambda>k. Inl TypeError)\<rparr>
         | None \<Rightarrow> \<lparr>prototype = Function_prototype\<rparr>)\<rparr>"

section \<open>HttpAdapter (src/lib/utils/decorator.utils.ts, second part)\<close>

text \<open>
  A call either returns or throws; in both cases the mutations made so far stay, so
  both results carry the state.
\<close>

datatype ('x, 's) outcome = Returns 's | Throws 'x 's

fun final_state :: "('x, 's) outcome \<Rightarrow> 's" where
  "final_state (Returns s) = s"
| "final_state (Throws x s) = s"

text \<open>
  A value thrown out of the adapter or the core is either an error object built by this
  code or whatever the transport threw (type \<open>'e\<close>, opaque).
\<close>

datatype 'e thrown = Own error | Transport 'e

datatype port = PortNumber int | PortString string

text \<open>
  The arguments of one \<^verbatim>\<open>listen(port, hostname?, message?)\<close> call; \<^term>\<open>None\<close> is
  \<^verbatim>\<open>undefined\<close>.
\<close>

type_synonym listen_args = "port option \<times> string option \<times> string option"

text \<open>The object literal passed to \<^verbatim>\<open>safeEmit('$server:crashed', ...)\<close>.\<close>

record 'e crash_payload =
  message :: string
  error :: 'e
  stack :: "string option"
  timestamp :: string

text \<open>
  The second argument of \<^verbatim>\<open>system\<close>: the \<^verbatim>\<open>ready\<close> payload object with its three
  properties, or a callback (type \<open>'f\<close>, opaque). Reading \<^verbatim>\<open>port\<close>, \<^verbatim>\<open>host\<close> or
  \<^verbatim>\<open>message\<close> on a callback gives \<^verbatim>\<open>undefined\<close>.
\<close>

datatype 'f system_arg =
  ReadyPayload "port option" "string option" "string option"
| Listener 'f

fun get_port :: "'f system_arg \<Rightarrow> port option" where
  "get_port (ReadyPayload p h m) = p"
| "get_port (Listener f) = None"

fun get_host :: "'f system_arg \<Rightarrow> string option" where
  "get_host (ReadyPayload p h m) = h"
| "get_host (Listener f) = None"

fun get_message :: "'f system_arg \<Rightarrow> string option" where
  "get_message (ReadyPayload p h m) = m"
| "get_message (Listener f) = None"

text \<open>
  What the adapter cannot decide itself: whether the transport's \<^verbatim>\<open>listen\<close> throws
  for given arguments (\<^term>\<open>None\<close>: it returns), the \<^verbatim>\<open>stack\<close> property of a thrown
  value, and the clock read by \<^verbatim>\<open>new Date().toISOString()\<close>. A thrown value is an
  object, so reading its \<^verbatim>\<open>stack\<close> does not fail.
\<close>

record 'e environment =
  transport_listen :: "listen_args \<Rightarrow> 'e option"
  stack_of :: "'e \<Rightarrow> string option"
  now :: string

text \<open>
  The adapter's state: the listeners of its event channel by event name, in registration
  order; the trace of \<^verbatim>\<open>safeEmit\<close> calls; the trace of calls of the transport's
  \<^verbatim>\<open>listen\<close>.
\<close>

record ('e, 'f) http_adapter =
  listeners :: "string \<Rightarrow> 'f system_arg list"
  emitted :: "(string \<times> 'e crash_payload) list"
  listen_calls :: "listen_args list"

text \<open>
  Modelled from the spec: \<^verbatim>\<open>HttpEventCore.on\<close> (./http-events is not among the
  sources). "Channel: owns a mapping from event name to an ordered sequence of
  listeners"; \<^verbatim>\<open>on(event, listener)\<close> adds the listener at the end.
\<close>

definition on :: "string \<Rightarrow> 'f system_arg \<Rightarrow> ('e, 'f, 'z) http_adapter_scheme
    \<Rightarrow> ('e, 'f, 'z) http_adapter_scheme" where
  "on event listener s = s\<lparr>listeners := (listeners s)(event := listeners s event @ [listener])\<rparr>"

text \<open>
  Modelled from the spec: \<^verbatim>\<open>HttpEventCore.safeEmit\<close> (./http-events is not among the
  sources). "same as emit but returns whether any listener existed": the emission is
  delivered to the listeners registered for the event and the result says whether there
  was one.
\<close>

definition safeEmit :: "string \<Rightarrow> 'e crash_payload \<Rightarrow> ('e, 'f, 'z) http_adapter_scheme
    \<Rightarrow> bool \<times> ('e, 'f, 'z) http_adapter_scheme" where
  "safeEmit event payload s =
     (listeners s event \<noteq> [], s\<lparr>emitted := emitted s @ [(event, payload)]\<rparr>)"

text \<open>
  \<^verbatim>\<open>protected _listen(port, hostname?, message?)\<close>: the \<^verbatim>\<open>try\<close> block calls the
  transport; the \<^verbatim>\<open>catch\<close> block emits and re-throws when nobody listened.
\<close>

definition HttpAdapter_listen :: "'e environment \<Rightarrow> port option \<Rightarrow> string option \<Rightarrow> string option
    \<Rightarrow> ('e, 'f, 'z) http_adapter_scheme
    \<Rightarrow> ('e thrown, ('e, 'f, 'z) http_adapter_scheme) outcome" where
  "HttpAdapter_listen env p hostname msg s =
     (let s1 = s\<lparr>listen_calls := listen_calls s @ [(p, hostname, msg)]\<rparr>
      in case transport_listen env (p, hostname, msg) of
           None \<Rightarrow> Returns s1
         | Some e \<Rightarrow>
             (let (listener, s2) =
                    safeEmit ''$server:crashed''
                      \<lparr>message = ''Failed to start HTTP server'',
                       error = e,
                       stack = stack_of env e,
                       timestamp = now env\<rparr> s1
              in if \<not> listener then Throws (Transport e) s2 else Returns s2))"

section \<open>HttpCore (src/packages/http/http-core.ts)\<close>

text \<open>
  The values \<^verbatim>\<open>use(...args: any)\<close> tells apart: strings, functions, arrays, and
  everything else (which has no \<^verbatim>\<open>forEach\<close>). A function is a middleware made by a
  plugin unit or a function of the application (type \<open>'f\<close>, opaque).
\<close>

datatype plugin_unit = Cors | BodyParser | Proxy

datatype 'f middleware_fn = PluginMiddleware plugin_unit | UserFunction 'f

datatype 'f js_value =
  JsString string
| JsFunction "'f middleware_fn"
| JsArray "'f js_value list"
| JsOther

fun isString :: "'f js_value \<Rightarrow> bool" where
  "isString (JsString s) = True"
| "isString _ = False"

fun isFunction :: "'f js_value \<Rightarrow> bool" where
  "isFunction (JsFunction f) = True"
| "isFunction _ = False"

record 'v plugin_settings =
  enabled :: bool
  config :: "string \<rightharpoonup> 'v"

text \<open>
  Modelled from the spec: \<^verbatim>\<open>updateMany\<close> of a plugin unit (./plugins is not among the
  sources). "merges the given fields into the current config, leaving unspecified fields
  untouched".
\<close>

definition updateMany :: "(string \<rightharpoonup> 'v) \<Rightarrow> 'v plugin_settings \<Rightarrow> 'v plugin_settings" where
  "updateMany args unit = unit\<lparr>config := config unit ++ args\<rparr>"

text \<open>
  Modelled from the spec: \<^verbatim>\<open>createMiddleware\<close> of a plugin unit (./plugins is not among
  the sources). "returns a middleware function that reads the unit's current config at
  the moment each request passes through it": the middleware is known by the unit it
  reads.
\<close>

definition createMiddleware :: "plugin_unit \<Rightarrow> 'f js_value" where
  "createMiddleware unit = JsFunction (PluginMiddleware unit)"

type_synonym 'f middleware_entry = "string option \<times> 'f js_value"

text \<open>
  Modelled from the spec: \<^verbatim>\<open>use(fn)\<close> of the middleware registry (./http-channel is not
  among the sources). "registers a global middleware"; "order of insertion is the order
  of execution".
\<close>

definition registry_use :: "'f js_value \<Rightarrow> 'f middleware_entry list \<Rightarrow> 'f middleware_entry list" where
  "registry_use fn registry = registry @ [(None, fn)]"

text \<open>
  Modelled from the spec: \<^verbatim>\<open>use(path, fn)\<close> of the middleware registry (./http-channel
  is not among the sources). "registers a middleware scoped to requests whose normalized
  path starts with normalize(path)"; "every path stored or looked up is normalized"; an
  invalid path is "thrown synchronously at registration time".
\<close>

definition registry_use_path :: "string \<Rightarrow> 'f js_value \<Rightarrow> 'f middleware_entry list
    \<Rightarrow> error + 'f middleware_entry list" where
  "registry_use_path path fn registry =
     (case normalizePath path of
        Inl e \<Rightarrow> Inl e
      | Inr p \<Rightarrow> Inr (registry @ [(Some p, fn)]))"

text \<open>
  \<^verbatim>\<open>class HttpCore extends HttpAdapter\<close>: the adapter's state, the plugin units of
  \<^verbatim>\<open>_plugins\<close> and the registry \<^verbatim>\<open>channel.middleware\<close>.
\<close>

record ('e, 'f, 'v) http_core = "('e, 'f) http_adapter" +
  plugins :: "plugin_unit \<Rightarrow> 'v plugin_settings"
  middleware :: "'f middleware_entry list"

text \<open>
  \<^verbatim>\<open>public use(...args: any): void\<close>. With two arguments nothing happens unless the
  first is a string and the second a function. With one function argument it is
  registered. Otherwise \<^verbatim>\<open>args[0].forEach\<close> is called: on an array every element is
  registered in order, on anything else (also \<^verbatim>\<open>undefined\<close>, when there is no
  argument) the engine raises a TypeError.
\<close>

definition use :: "'f js_value list \<Rightarrow> ('e, 'f, 'v) http_core
    \<Rightarrow> ('e thrown, ('e, 'f, 'v) http_core) outcome" where
  "use args s =
     (if length args = 2 then
        (let path = args ! 0; fn = args ! 1
         in if isString path \<and> isFunction fn then
              (case path of
                 JsString p \<Rightarrow>
                   (case registry_use_path p fn (middleware s) of
                      Inl e \<Rightarrow> Throws (Own e) s
                    | Inr r \<Rightarrow> Returns (s\<lparr>middleware := r\<rparr>))
               | _ \<Rightarrow> Returns s)
            else Returns s)
      else if length args = 1 \<and> isFunction (args ! 0) then
        Returns (s\<lparr>middleware := registry_use (args ! 0) (middleware s)\<rparr>)
      else
        (case args of
           JsArray fns # _ \<Rightarrow>
             Returns (s\<lparr>middleware := foldl (\<lambda>r fn. registry_use fn r) (middleware s) fns\<rparr>)
         | _ \<Rightarrow> Throws (Own TypeError) s))"

text \<open>
  \<^verbatim>\<open>const cors = this._plugins.cors; cors.updateMany(args);\<close>
  \<^verbatim>\<open>this.use(this._plugins.cors.createMiddleware());\<close>
\<close>

definition enableCors :: "(string \<rightharpoonup> 'v) \<Rightarrow> ('e, 'f, 'v) http_core
    \<Rightarrow> ('e thrown, ('e, 'f, 'v) http_core) outcome" where
  "enableCors args s =
     (let s1 = s\<lparr>plugins := (plugins s)(Cors := updateMany args (plugins s Cors))\<rparr>
      in use [createMiddleware Cors] s1)"

text \<open>
  \<^verbatim>\<open>const bodyParser = this._plugins.bodyParser; bodyParser.updateMany(args);\<close>
  \<^verbatim>\<open>this.use(this._plugins.cors.createMiddleware());\<close>
\<close>

definition useBodyParser :: "(string \<rightharpoonup> 'v) \<Rightarrow> ('e, 'f, 'v) http_core
    \<Rightarrow> ('e thrown, ('e, 'f, 'v) http_core) outcome" where
  "useBodyParser args s =
     (let s1 = s\<lparr>plugins := (plugins s)(BodyParser := updateMany args (plugins s BodyParser))\<rparr>
      in use [createMiddleware Cors] s1)"

text \<open>
  \<^verbatim>\<open>public system(event, listener): void\<close>: the \<^verbatim>\<open>switch\<close> compares the event name
  with the four cases in order; \<^verbatim>\<open>default\<close> throws
  \<^verbatim>\<open>Error(`Unknown system event: ${event}`)\<close>.
\<close>

definition system :: "'e environment \<Rightarrow> string \<Rightarrow> 'f system_arg \<Rightarrow> ('e, 'f, 'v) http_core
    \<Rightarrow> ('e thrown, ('e, 'f, 'v) http_core) outcome" where
  "system env event listener s =
     (if event = ''ready'' then
        HttpAdapter_listen env (get_port listener) (get_host listener) (get_message listener) s
      else if event = ''crashed'' then Returns (on ''$server:crashed'' listener s)
      else if event = ''router:miss'' then Returns (on ''$router:miss'' listener s)
      else if event = ''request:failed'' then Returns (on ''$request:failed'' listener s)
      else Throws (Own (Error (''Unknown system event: '' @ event))) s)"

section \<open>Example environments and states\<close>

text \<open>
  A transport that refuses port 80 and accepts every other port, a core with no listener
  and nothing registered, and the same core after one listener for
  \<^verbatim>\<open>$server:crashed\<close> was registered.
\<close>

definition failing_env :: "string environment" where
  "failing_env =
     \<lparr>transport_listen = (\<lambda>a. if fst a = Some (PortNumber 80) then Some ''EACCES'' else None),
      stack_of = (\<lambda>e. Some (e @ '' at listen'')),
      now = ''2025-01-01T00:00:00.000Z''\<rparr>"

definition fresh_core :: "(string, nat, nat) http_core" where
  "fresh_core =
     \<lparr>listeners = (\<lambda>ev. []), emitted = [], listen_calls = [],
      plugins = (\<lambda>u. \<lparr>enabled = True, config = Map.empty\<rparr>), middleware = []\<rparr>"

definition listened_core :: "(string, nat, nat) http_core" where
  "listened_core = on ''$server:crashed'' (Listener 7) fresh_core"

text \<open>
  \<^verbatim>\<open>class Ctl { index() {} static call() {} static create() {} }\<close>
\<close>

definition Ctl :: "nat js_class" where
  "Ctl = \<lparr>instance_methods = [(''index'', 1)],
          static_methods = [(''call'', 2), (''create'', 3)]\<rparr>"

section \<open>Properties of the path normalizer\<close>

subsection \<open>The two replacements\<close>

lemma replace_slash_runs_hd: "s \<noteq> [] \<Longrightarrow> replace_slash_runs s \<noteq> [] \<and> hd (replace_slash_runs s) = hd s"
  by (induction s rule: replace_slash_runs.induct) auto

lemma replace_slash_runs_no_run: "\<not> has_slash_run (replace_slash_runs s)"
proof (induction s rule: replace_slash_runs.induct)
  case (3 c d cs)
  have "replace_slash_runs (d # cs) \<noteq> [] \<and> hd (replace_slash_runs (d # cs)) = d"
    using replace_slash_runs_hd [of "d # cs"] by simp
  with 3 show ?case
    by (cases "replace_slash_runs (d # cs)") (auto split: if_splits)
qed simp_all

lemma replace_slash_runs_fixed: "\<not> has_slash_run s \<Longrightarrow> replace_slash_runs s = s"
  by (induction s rule: replace_slash_runs.induct) auto

lemma replace_slash_runs_others:
  "filter (\<lambda>c. c \<noteq> CHR ''/'') (replace_slash_runs s) = filter (\<lambda>c. c \<noteq> CHR ''/'') s"
  by (induction s rule: replace_slash_runs.induct) auto

lemma replace_trailing_slash_others:
  "filter (\<lambda>c. c \<noteq> CHR ''/'') (replace_trailing_slash s) = filter (\<lambda>c. c \<noteq> CHR ''/'') s"
  by (cases s rule: rev_cases) (auto simp: replace_trailing_slash_def)

lemma has_slash_run_snoc:
  "has_slash_run (s @ [c]) = (has_slash_run s \<or> (s \<noteq> [] \<and> last s = CHR ''/'' \<and> c = CHR ''/''))"
  by (induction s rule: has_slash_run.induct) auto

lemma has_slash_run_append:
  "has_slash_run (s @ t) =
     (has_slash_run s \<or> has_slash_run t \<or> (s \<noteq> [] \<and> t \<noteq> [] \<and> last s = CHR ''/'' \<and> hd t = CHR ''/''))"
proof (induction s)
  case Nil
  show ?case by simp
next
  case (Cons c s)
  show ?case
  proof (cases s)
    case Nil
    then show ?thesis by (cases t) auto
  next
    case (Cons d cs)
    with Cons.IH show ?thesis by auto
  qed
qed

lemma replace_trailing_slash_no_run:
  "\<not> has_slash_run s \<Longrightarrow> \<not> has_slash_run (replace_trailing_slash s)"
  by (cases s rule: rev_cases) (auto simp: replace_trailing_slash_def has_slash_run_snoc)

lemma replace_trailing_slash_last:
  "\<not> has_slash_run s \<Longrightarrow> replace_trailing_slash s \<noteq> [] \<Longrightarrow> last (replace_trailing_slash s) \<noteq> CHR ''/''"
  by (cases s rule: rev_cases) (auto simp: replace_trailing_slash_def has_slash_run_snoc)

lemma replace_trailing_slash_hd:
  "replace_trailing_slash s \<noteq> [] \<Longrightarrow> hd (replace_trailing_slash s) = hd s"
  by (cases s rule: rev_cases) (auto simp: replace_trailing_slash_def hd_append)

lemma others_nonempty: "\<exists>c \<in> set p. c \<noteq> CHR ''/'' \<Longrightarrow> filter (\<lambda>c. c \<noteq> CHR ''/'') p \<noteq> []"
  by (simp add: filter_empty_conv)

lemma normalizePath_is_normalized:
  assumes "\<exists>c \<in> set p. c \<noteq> CHR ''/''"
  shows "\<exists>r. normalizePath p = Inr r \<and> is_normalized r"
proof -
  let ?t = "replace_slash_runs (CHR ''/'' # p)"
  let ?r = "replace_trailing_slash ?t"
  from assms have ne: "p \<noteq> []" by auto
  have "filter (\<lambda>c. c \<noteq> CHR ''/'') ?r = filter (\<lambda>c. c \<noteq> CHR ''/'') p"
    by (simp add: replace_trailing_slash_others replace_slash_runs_others)
  with assms have r_ne: "?r \<noteq> []"
    by (metis filter.simps(1) others_nonempty)
  have t_run: "\<not> has_slash_run ?t" by (rule replace_slash_runs_no_run)
  have "hd ?r = hd ?t" using r_ne by (rule replace_trailing_slash_hd)
  then have r_hd: "hd ?r = CHR ''/''"
    using replace_slash_runs_hd [of "CHR ''/'' # p"] by simp
  have r_run: "\<not> has_slash_run ?r" using t_run by (rule replace_trailing_slash_no_run)
  have r_last: "last ?r \<noteq> CHR ''/''" using t_run r_ne by (rule replace_trailing_slash_last)
  have "normalizePath p = Inr ?r" using ne by (simp add: normalizePath_def)
  with r_ne r_hd r_run r_last show ?thesis by (simp add: is_normalized_def)
qed

lemma normalizePath_fixes_normalized:
  assumes "is_normalized r"
  shows "normalizePath r = Inr r"
proof -
  from assms have ne: "r \<noteq> []" and h: "hd r = CHR ''/''" and nr: "\<not> has_slash_run r"
    and l: "last r \<noteq> CHR ''/''"
    by (simp_all add: is_normalized_def)
  from ne h obtain cs where r: "r = CHR ''/'' # cs" by (cases r) auto
  have "replace_slash_runs (CHR ''/'' # r) = replace_slash_runs r"
    by (simp add: r)
  also have "\<dots> = r" using nr by (rule replace_slash_runs_fixed)
  finally have "replace_trailing_slash (replace_slash_runs (CHR ''/'' # r)) = r"
    using l by (simp add: replace_trailing_slash_def)
  with ne show ?thesis by (simp add: normalizePath_def)
qed

lemma replace_slash_runs_all_slashes:
  "p \<noteq> [] \<Longrightarrow> \<forall>c \<in> set p. c = CHR ''/'' \<Longrightarrow> replace_slash_runs p = ''/''"
  by (induction p rule: replace_slash_runs.induct) auto

lemma normalizePath_all_slashes:
  "p \<noteq> [] \<Longrightarrow> \<forall>c \<in> set p. c = CHR ''/'' \<Longrightarrow> normalizePath p = Inr []"
  using replace_slash_runs_all_slashes [of "CHR ''/'' # p"]
  by (simp add: normalizePath_def replace_trailing_slash_def)

lemma normalizePath_result:
  assumes "normalizePath p = Inr r"
  shows "r = [] \<or> is_normalized r"
proof (cases "\<exists>c \<in> set p. c \<noteq> CHR ''/''")
  case True
  then show ?thesis using normalizePath_is_normalized [of p] assms by auto
next
  case False
  moreover from assms have "p \<noteq> []" by (auto simp: normalizePath_def split: if_splits)
  ultimately have "normalizePath p = Inr []" by (intro normalizePath_all_slashes) auto
  with assms show ?thesis by simp
qed

lemma combinePaths_concat:
  assumes "path \<noteq> []"
  shows "\<exists>a b. (a = [] \<or> is_normalized a) \<and> normalizePath path = Inr b \<and> (b = [] \<or> is_normalized b)
     \<and> (case prefix of None \<Rightarrow> a = [] | Some p \<Rightarrow> if p = [] then a = [] else normalizePath p = Inr a)
     \<and> combinePaths prefix path = Inr (a @ b) \<and> \<not> has_slash_run (a @ b)
     \<and> (a @ b \<noteq> [] \<longrightarrow> is_normalized (a @ b))"
proof -
  obtain b where b: "normalizePath path = Inr b"
    using assms by (auto simp: normalizePath_def)
  then have bn: "b = [] \<or> is_normalized b" by (rule normalizePath_result)
  have "\<exists>a. (case prefix of None \<Rightarrow> Inr [] | Some p \<Rightarrow> if p = [] then Inr [] else normalizePath p) = (Inr a :: error + string)"
    by (cases prefix) (simp_all add: normalizePath_def)
  then obtain a where a: "(case prefix of None \<Rightarrow> Inr [] | Some p \<Rightarrow> if p = [] then Inr [] else normalizePath p) = (Inr a :: error + string)"
    by blast
  then have an: "a = [] \<or> is_normalized a"
    by (auto split: option.splits if_splits dest: normalizePath_result)
  have nr: "\<not> has_slash_run (a @ b)"
    using an bn by (auto simp: is_normalized_def has_slash_run_append)
  have "combinePaths prefix path = Inr (replace_slash_runs (a @ b))"
    using a b by (simp add: combinePaths_def)
  then have c: "combinePaths prefix path = Inr (a @ b)"
    using nr by (simp add: replace_slash_runs_fixed)
  have "a @ b \<noteq> [] \<longrightarrow> is_normalized (a @ b)"
    using an bn nr by (auto simp: is_normalized_def hd_append)
  with a b an bn nr c show ?thesis
    by (auto split: option.splits if_splits)
qed


lemma normalizePath_idempotent_on_names:
  assumes "\<exists>c \<in> set p. c \<noteq> CHR ''/''"
  shows "\<exists>r. normalizePath p = Inr r \<and> normalizePath r = Inr r"
  using normalizePath_is_normalized [OF assms] normalizePath_fixes_normalized by blast

lemma combinePaths_examples:
  "combinePaths (Some ''/api'') ''/users'' = Inr ''/api/users''"
  "combinePaths None ''/users'' = Inr ''/users''"
  by (simp_all add: combinePaths_def normalizePath_def replace_trailing_slash_def)

subsection \<open>The claims about paths\<close>

text \<open>
  C4. \<^verbatim>\<open>normalizePath\<close> throws exactly when its input is the empty string, and what it
  throws then is the error "Path cannot be empty."; for a non-empty input it returns the
  result of the two replacements; \<^verbatim>\<open>normalizePath('//a//b/')\<close> is \<^verbatim>\<open>'/a/b'\<close>.
\<close>

theorem normalizePath_throws_iff_empty:
  "(normalizePath p = Inl (Error ''Path cannot be empty.'')) = (p = [])
   \<and> (\<exists>e. normalizePath p = Inl e) = (p = [])
   \<and> (p \<noteq> [] \<longrightarrow>
        normalizePath p = Inr (replace_trailing_slash (replace_slash_runs (CHR ''/'' # p))))
   \<and> normalizePath ''//a//b/'' = Inr ''/a/b''"
  by (simp add: normalizePath_def replace_trailing_slash_def)

theorem normalizePath_throws_iff_empty_witness:
  "normalizePath [] = Inl (Error ''Path cannot be empty.'')
   \<and> ''users/'' \<noteq> [] \<and> normalizePath ''users/'' = Inr ''/users''"
  using normalizePath_throws_iff_empty [of "[]"] normalizePath_throws_iff_empty [of "''users/''"]
  by (simp add: replace_trailing_slash_def)

text \<open>
  C1. Idempotence of \<^verbatim>\<open>normalizePath\<close> fails at the root path: \<^verbatim>\<open>normalizePath('/')\<close>
  returns the empty string, and \<^verbatim>\<open>normalizePath\<close> applied to that result throws. (On
  every path with a character other than the separator the function is idempotent:
  \<open>normalizePath_idempotent_on_names\<close>.)
\<close>

theorem normalizePath_root_not_idempotent:
  "normalizePath ''/'' = Inr []
   \<and> (case normalizePath ''/'' of Inl e \<Rightarrow> Inl e | Inr r \<Rightarrow> normalizePath r)
       = Inl (Error ''Path cannot be empty.'')"
  by (simp add: normalizePath_def replace_trailing_slash_def)

text \<open>
  C5. The result of \<^verbatim>\<open>normalizePath\<close> on the non-empty inputs \<^verbatim>\<open>'/'\<close> and \<^verbatim>\<open>'//'\<close>
  is the empty string, which is not a normalized path: it is empty and has no leading
  separator. (On every path with a character other than the separator the result is
  normalized: \<open>normalizePath_is_normalized\<close>.)
\<close>

theorem normalizePath_root_not_normalized:
  "''/'' \<noteq> [] \<and> normalizePath ''/'' = Inr [] \<and> normalizePath ''//'' = Inr []
   \<and> \<not> is_normalized []"
  by (simp add: normalizePath_def replace_trailing_slash_def is_normalized_def)

text \<open>
  C3. \<^verbatim>\<open>combinePaths\<close> of no prefix (or of the prefix \<^verbatim>\<open>'/'\<close>) and the route path
  \<^verbatim>\<open>'/'\<close> returns the empty string: the result has no separator at all, and
  \<^verbatim>\<open>normalizePath\<close> of the concatenation would throw instead. (Both examples of the
  claim hold, \<open>combinePaths_examples\<close>, and so does the rest of it whenever the
  concatenation is not empty, \<open>combinePaths_concat\<close>.)
\<close>

theorem combinePaths_root_empty:
  "combinePaths None ''/'' = Inr [] \<and> combinePaths (Some ''/'') ''/'' = Inr []
   \<and> \<not> is_normalized [] \<and> normalizePath [] = Inl (Error ''Path cannot be empty.'')"
  by (simp add: combinePaths_def normalizePath_def replace_trailing_slash_def is_normalized_def)

subsection \<open>Decorator targets\<close>

lemma map_of_rev_defined: "n \<in> set (map fst ms) \<Longrightarrow> \<exists>f. map_of (rev ms) n = Some f"
proof -
  assume "n \<in> set (map fst ms)"
  then have "n \<in> fst ` set (rev ms)" by simp
  then have "map_of (rev ms) n \<noteq> None" by (simp only: map_of_eq_None_iff not_not)
  then show ?thesis by blast
qed

text \<open>On an instance method of any class \<^verbatim>\<open>validateMethod\<close> returns.\<close>

lemma validateMethod_instance_member:
  assumes "is_instance_member C k"
  shows "validateMethod (instance_target C) k = Inr ()"
proof (cases k)
  case (StringKey n)
  with assms have "n \<in> set (map fst (instance_methods C))"
    by (simp add: is_instance_member_def)
  then have "\<exists>f. map_of (rev (instance_methods C)) n = Some f"
    by (rule map_of_rev_defined)
  then obtain f where f: "map_of (rev (instance_methods C)) n = Some f" ..
  have "\<exists>v. class_prototype C (StringKey n) = Inr (Some v)"
  proof (cases "n = ''constructor''")
    case True
    have "class_prototype C (StringKey n) = Inr (Some ClassItself)"
      unfolding class_prototype_def property_key.case using True by (rule if_P)
    then show ?thesis by blast
  next
    case False
    have "class_prototype C (StringKey n) =
        (case map_of (rev (instance_methods C)) n of
           Some f \<Rightarrow> Inr (Some (Method f))
         | None \<Rightarrow> Object_prototype (StringKey n))"
      unfolding class_prototype_def property_key.case using False by (rule if_not_P)
    then have "class_prototype C (StringKey n) = Inr (Some (Method f))"
      by (simp only: f option.case)
    then show ?thesis by blast
  qed
  then obtain v where "class_prototype C (StringKey n) = Inr (Some v)" ..
  then have "prototype (constructor (instance_target C)) k = Inr (Some v)"
    by (simp add: instance_target_def StringKey)
  then show ?thesis
    by (simp add: validateMethod_def)
next
  case (SymbolKey d)
  with assms show ?thesis by (simp add: is_instance_member_def)
qed

text \<open>
  On a static method \<^verbatim>\<open>validateMethod\<close> throws the error that names it, provided the
  class has no static method \<^verbatim>\<open>constructor\<close> and the name is not a property of
  \<^verbatim>\<open>Function.prototype\<close>.
\<close>

lemma validateMethod_static_member:
  assumes "map_of (rev (static_methods C)) ''constructor'' = None"
    and "Function_prototype k = (Inr None :: error + 'f js_property option)"
  shows "validateMethod (static_target (C :: 'f js_class)) k =
     Inl (Error (''Decorators cannot be applied to static methods: '' @ String k))"
  using assms by (simp add: validateMethod_def static_target_def)

lemma Function_prototype_create:
  "Function_prototype (StringKey ''create'') = (Inr None :: error + 'f js_property option)"
  by (simp add: Function_prototype_def Object_prototype_def)

lemma Function_prototype_call:
  "Function_prototype (StringKey ''call'') = (Inr (Some Builtin) :: error + 'f js_property option)"
  by (simp add: Function_prototype_def)

lemma class_prototype_Ctl_index:
  "class_prototype Ctl (StringKey ''index'') = Inr (Some (Method 1))"
  by (simp add: class_prototype_def Ctl_def)

lemma validateMethod_Ctl_index:
  "validateMethod (instance_target Ctl) (StringKey ''index'') = Inr ()"
  by (simp add: validateMethod_def instance_target_def class_prototype_Ctl_index)

lemma validateMethod_Ctl_create:
  "validateMethod (static_target Ctl) (StringKey ''create'') =
     Inl (Error ''Decorators cannot be applied to static methods: create'')"
  by (simp add: validateMethod_def static_target_def Function_prototype_create Ctl_def)

text \<open>
  C8. \<^verbatim>\<open>validateMethod\<close> is to throw exactly when the member is not an instance member.
  In \<^verbatim>\<open>class Ctl { index() {} static call() {} static create() {} }\<close> the member
  \<^verbatim>\<open>call\<close> is static and no instance member, yet \<^verbatim>\<open>validateMethod(Ctl, 'call')\<close>
  returns without throwing: \<^verbatim>\<open>Ctl.constructor\<close> is \<^verbatim>\<open>Function\<close>, and
  \<^verbatim>\<open>Function.prototype.call\<close> is defined. (The function returns on every instance
  method, \<open>validateMethod_instance_member\<close>, and throws on a static method whose name
  \<^verbatim>\<open>Function.prototype\<close> does not define, \<open>validateMethod_static_member\<close>.)
\<close>

theorem validateMethod_accepts_static_call:
  "is_static_member Ctl (StringKey ''call'')
   \<and> \<not> is_instance_member Ctl (StringKey ''call'')
   \<and> validateMethod (static_target Ctl) (StringKey ''call'') = Inr ()"
  by (simp add: validateMethod_def static_target_def Ctl_def is_static_member_def
      is_instance_member_def Function_prototype_call)

section \<open>Properties of the adapter and the core\<close>

lemma safeEmit_reports: "fst (safeEmit event payload s) = (listeners s event \<noteq> [])"
  by (simp add: safeEmit_def)

lemma safeEmit_emits: "emitted (snd (safeEmit event payload s)) = emitted s @ [(event, payload)]"
  by (simp add: safeEmit_def)

text \<open>
  C2. When the transport's \<^verbatim>\<open>listen\<close> throws \<open>e\<close>, \<^verbatim>\<open>_listen\<close> emits
  \<^verbatim>\<open>$server:crashed\<close> once, with the message, the error, its stack and the timestamp;
  it re-throws \<open>e\<close> when \<^verbatim>\<open>safeEmit\<close> reports no listener and returns when it reports
  one. When the transport's \<^verbatim>\<open>listen\<close> returns, \<^verbatim>\<open>_listen\<close> returns and nothing is
  emitted.
\<close>

theorem listen_crash_contract:
  fixes s :: "('e, 'f, 'z) http_adapter_scheme"
  shows
  "(transport_listen env (p, h, m) = Some e \<longrightarrow>
      (let payload = \<lparr>message = ''Failed to start HTTP server'', error = e,
                      stack = stack_of env e, timestamp = now env\<rparr>;
           s' = s\<lparr>listen_calls := listen_calls s @ [(p, h, m)],
                  emitted := emitted s @ [(''$server:crashed'', payload)]\<rparr>
       in (\<not> fst (safeEmit ''$server:crashed'' payload s) \<longrightarrow>
             HttpAdapter_listen env p h m s = Throws (Transport e) s')
        \<and> (fst (safeEmit ''$server:crashed'' payload s) \<longrightarrow>
             HttpAdapter_listen env p h m s = Returns s')))
   \<and> (transport_listen env (p, h, m) = None \<longrightarrow>
        HttpAdapter_listen env p h m s = Returns (s\<lparr>listen_calls := listen_calls s @ [(p, h, m)]\<rparr>))"
  by (simp add: HttpAdapter_listen_def safeEmit_def Let_def)

theorem listen_crash_contract_witness:
  "HttpAdapter_listen failing_env (Some (PortNumber 80)) None None fresh_core =
     Throws (Transport ''EACCES'')
       (fresh_core\<lparr>listen_calls := [(Some (PortNumber 80), None, None)],
          emitted := [(''$server:crashed'',
          \<lparr>message = ''Failed to start HTTP server'', error = ''EACCES'',
           stack = Some ''EACCES at listen'', timestamp = ''2025-01-01T00:00:00.000Z''\<rparr>)]\<rparr>)
   \<and> HttpAdapter_listen failing_env (Some (PortNumber 80)) None None listened_core =
     Returns
       (listened_core\<lparr>listen_calls := [(Some (PortNumber 80), None, None)],
          emitted := [(''$server:crashed'',
          \<lparr>message = ''Failed to start HTTP server'', error = ''EACCES'',
           stack = Some ''EACCES at listen'', timestamp = ''2025-01-01T00:00:00.000Z''\<rparr>)]\<rparr>)
   \<and> HttpAdapter_listen failing_env (Some (PortNumber 3000)) None None fresh_core =
     Returns (fresh_core\<lparr>listen_calls := [(Some (PortNumber 3000), None, None)]\<rparr>)"
proof -
  have fails: "transport_listen failing_env (Some (PortNumber 80), None, None) = Some ''EACCES''"
    by (simp add: failing_env_def)
  have works: "transport_listen failing_env (Some (PortNumber 3000), None, None) = None"
    by (simp add: failing_env_def)
  have unheard: "\<not> fst (safeEmit ''$server:crashed'' pl fresh_core)" for pl :: "string crash_payload"
    by (simp add: safeEmit_def fresh_core_def)
  have heard: "fst (safeEmit ''$server:crashed'' pl listened_core)" for pl :: "string crash_payload"
    by (simp add: safeEmit_def listened_core_def on_def fresh_core_def)
  have stack: "stack_of failing_env ''EACCES'' = Some ''EACCES at listen''"
    and clock: "now failing_env = ''2025-01-01T00:00:00.000Z''"
    by (simp_all add: failing_env_def)
  have empty: "emitted fresh_core = []" "listen_calls fresh_core = []"
     "emitted listened_core = []" "listen_calls listened_core = []"
    by (simp_all add: fresh_core_def listened_core_def on_def)
  show ?thesis
    using listen_crash_contract [of failing_env "Some (PortNumber 80)" None None "''EACCES''" fresh_core]
      listen_crash_contract [of failing_env "Some (PortNumber 80)" None None "''EACCES''" listened_core]
      listen_crash_contract [of failing_env "Some (PortNumber 3000)" None None "''EACCES''" fresh_core]
    by (simp add: fails works unheard heard stack clock empty Let_def)
qed

text \<open>
  C6. For an event name outside \<^verbatim>\<open>ready\<close>, \<^verbatim>\<open>crashed\<close>, \<^verbatim>\<open>router:miss\<close> and
  \<^verbatim>\<open>request:failed\<close>, \<^verbatim>\<open>system\<close> throws an error whose message names the event, and
  the state is the one before the call: no listener registered, nothing emitted, no
  listen triggered.
\<close>

theorem system_unknown_event:
  "event \<notin> {''ready'', ''crashed'', ''router:miss'', ''request:failed''} \<Longrightarrow>
   system env event listener s = Throws (Own (Error (''Unknown system event: '' @ event))) s"
  by (simp add: system_def)

theorem system_unknown_event_witness:
  "''shutdown'' \<notin> {''ready'', ''crashed'', ''router:miss'', ''request:failed''}
   \<and> system failing_env ''shutdown'' (Listener 7) fresh_core =
       Throws (Own (Error ''Unknown system event: shutdown'')) fresh_core"
  using system_unknown_event [of "''shutdown''" failing_env "Listener 7" fresh_core] by simp

text \<open>
  C7. \<^verbatim>\<open>system('ready', payload)\<close> is \<^verbatim>\<open>_listen\<close> with the payload's port, host and
  message, which calls the transport's \<^verbatim>\<open>listen\<close> with them; \<^verbatim>\<open>system\<close> with
  \<^verbatim>\<open>crashed\<close>, \<^verbatim>\<open>router:miss\<close> or \<^verbatim>\<open>request:failed\<close> returns after adding the
  listener to \<^verbatim>\<open>$server:crashed\<close>, \<^verbatim>\<open>$router:miss\<close> or \<^verbatim>\<open>$request:failed\<close>, and
  the transport's \<^verbatim>\<open>listen\<close> is not called.
\<close>

theorem system_dispatch:
  fixes s :: "('e, 'f, 'v) http_core"
  shows
  "system env ''ready'' (ReadyPayload p h m) s = HttpAdapter_listen env p h m s
   \<and> listen_calls (final_state (system env ''ready'' (ReadyPayload p h m) s)) =
       listen_calls s @ [(p, h, m)]
   \<and> system env ''crashed'' l s =
       Returns (s\<lparr>listeners := (listeners s)(''$server:crashed'' := listeners s ''$server:crashed'' @ [l])\<rparr>)
   \<and> system env ''router:miss'' l s =
       Returns (s\<lparr>listeners := (listeners s)(''$router:miss'' := listeners s ''$router:miss'' @ [l])\<rparr>)
   \<and> system env ''request:failed'' l s =
       Returns (s\<lparr>listeners := (listeners s)(''$request:failed'' := listeners s ''$request:failed'' @ [l])\<rparr>)
   \<and> (\<forall>ev \<in> {''crashed'', ''router:miss'', ''request:failed''}.
         listen_calls (final_state (system env ev l s)) = listen_calls s)"
  by (simp add: system_def on_def HttpAdapter_listen_def safeEmit_def Let_def split: option.split)

theorem system_dispatch_witness:
  "listen_calls (final_state (system failing_env ''ready''
       (ReadyPayload (Some (PortNumber 3000)) (Some ''localhost'') None) fresh_core)) =
     [(Some (PortNumber 3000), Some ''localhost'', None)]
   \<and> listeners (final_state (system failing_env ''crashed'' (Listener 7) fresh_core)) ''$server:crashed''
       = [Listener 7]
   \<and> ''crashed'' \<in> {''crashed'', ''router:miss'', ''request:failed''}
   \<and> listen_calls (final_state (system failing_env ''crashed'' (Listener 7) fresh_core)) = []"
proof -
  note dispatch = system_dispatch [of failing_env "Some (PortNumber 3000)" "Some ''localhost''"
      None fresh_core "Listener 7"]
  have before: "listen_calls fresh_core = []" "listeners fresh_core ''$server:crashed'' = []"
    by (simp_all add: fresh_core_def)
  have ready: "listen_calls (final_state (system failing_env ''ready''
       (ReadyPayload (Some (PortNumber 3000)) (Some ''localhost'') None) fresh_core)) =
     [(Some (PortNumber 3000), Some ''localhost'', None)]"
    using dispatch [THEN conjunct2, THEN conjunct1] by (simp add: before)
  have crashed: "listeners (final_state (system failing_env ''crashed'' (Listener 7) fresh_core))
       ''$server:crashed'' = [Listener 7]"
    using dispatch [THEN conjunct2, THEN conjunct2, THEN conjunct1] by (simp add: before)
  have member: "''crashed'' \<in> {''crashed'', ''router:miss'', ''request:failed''}"
    by simp
  have "\<forall>ev \<in> {''crashed'', ''router:miss'', ''request:failed''}.
      listen_calls (final_state (system failing_env ev (Listener 7) fresh_core)) = listen_calls fresh_core"
    using dispatch by (elim conjE)
  then have "listen_calls (final_state (system failing_env ''crashed'' (Listener 7) fresh_core))
      = listen_calls fresh_core"
    using member by (rule bspec)
  with ready crashed member show ?thesis by (simp add: before)
qed

text \<open>
  C9. \<^verbatim>\<open>useBodyParser(args)\<close> merges \<open>args\<close> into the configuration of the body-parser
  unit and registers, as a global middleware, the middleware made by the CORS unit;
  \<^verbatim>\<open>enableCors(args)\<close> merges \<open>args\<close> into the configuration of the CORS unit and
  registers the same middleware. The middleware of the body-parser unit is another one.
\<close>

theorem useBodyParser_registers_cors:
  fixes s :: "('e, 'f, 'v) http_core"
  shows
  "useBodyParser args s =
     Returns (s\<lparr>plugins := (plugins s)
                  (BodyParser := (plugins s BodyParser)\<lparr>config := config (plugins s BodyParser) ++ args\<rparr>),
               middleware := middleware s @ [(None, createMiddleware Cors)]\<rparr>)
   \<and> enableCors args s =
     Returns (s\<lparr>plugins := (plugins s)
                  (Cors := (plugins s Cors)\<lparr>config := config (plugins s Cors) ++ args\<rparr>),
               middleware := middleware s @ [(None, createMiddleware Cors)]\<rparr>)
   \<and> (createMiddleware Cors :: 'f js_value) \<noteq> createMiddleware BodyParser"
  by (simp add: useBodyParser_def enableCors_def use_def createMiddleware_def updateMany_def
      registry_use_def)

text \<open>
  C10. \<^verbatim>\<open>use\<close> with exactly two arguments of which the first is no string or the
  second no function returns, and the state (so the middleware registry too) is the one
  before the call.
\<close>

theorem use_two_args_ignored:
  "length args = 2 \<Longrightarrow> \<not> isString (args ! 0) \<or> \<not> isFunction (args ! 1) \<Longrightarrow>
   use args s = Returns s"
  by (auto simp: use_def Let_def)

theorem use_two_args_ignored_witness:
  "length [JsOther, JsFunction (UserFunction (1::nat))] = 2
   \<and> use [JsOther, JsFunction (UserFunction 1)] fresh_core = Returns fresh_core
   \<and> use [JsString ''/api'', JsArray []] fresh_core = Returns fresh_core"
  using use_two_args_ignored [of "[JsOther, JsFunction (UserFunction 1)]" fresh_core]
    use_two_args_ignored [of "[JsString ''/api'', JsArray []]" fresh_core]
  by simp

end
